theory Spec2Isabelle
  imports Main
begin

section \<open>Exceptions, process state and sequencing\<close>

text \<open>
  The two source files are \<^verbatim>\<open>llm/llm_job_parser.py\<close> (class \<^verbatim>\<open>LLMResumer\<close>) and
  \<^verbatim>\<open>resume_facade.py\<close> (class \<^verbatim>\<open>ResumeFacade\<close>). Both are sequences of calls into
  collaborators that are not part of these files (Selenium, tempfile, LangChain, the
  chat model, the style manager, the resume generator). Every such call may raise, so
  each is a parameter of the model that returns either an exception or a value.

  A Python \<^verbatim>\<open>str\<close> is modelled as \<open>string\<close>; every \<open>char\<close> stands for one character
  with a code point below 256.

  An exception raised by a collaborator is \<open>External\<close> with the collaborator's own
  description; the exceptions the two files raise themselves, or that the Python
  runtime raises for them, have constructors of their own.
\<close>

datatype exn =
    ValueError string
  | KeyError string
  | AttributeError string
  | FileNotFoundError string
  | External string

text \<open>
  A browser session is the sequence of commands it has received so far. It has been
  torn down when \<open>Quit\<close> is among them.
\<close>

datatype driver_cmd =
    Get string
  | FindElement string string
  | GetAttribute string
  | PrintToPDF string
  | Quit

type_synonym driver = "driver_cmd list"

definition quit_called :: "driver \<Rightarrow> bool" where
  "quit_called d = (Quit \<in> set d)"

record document =
  page_content :: string
  source :: string

text \<open>
  The state an \<^verbatim>\<open>LLMResumer\<close> method can read or change: the instance attribute
  \<^verbatim>\<open>self.job_description\<close> (\<open>None\<close> while the attribute does not exist, which is what
  \<^verbatim>\<open>hasattr\<close> tests), the files on disk (path to content), the browser sessions created
  so far, in creation order, and the prompts sent to \<^verbatim>\<open>self.llm_cheap\<close> so far, in order.
\<close>

record state =
  job_description :: "string option"
  files :: "string \<rightharpoonup> string"
  drivers :: "driver list"
  llm_log :: "string list"

type_synonym ('s, 'a) act = "'s \<Rightarrow> 's \<times> (exn + 'a)"

definition ret :: "'a \<Rightarrow> ('s, 'a) act" where
  "ret x = (\<lambda>s. (s, Inr x))"

definition raise :: "exn \<Rightarrow> ('s, 'a) act" where
  "raise e = (\<lambda>s. (s, Inl e))"

text \<open>Statement sequencing: an exception in the first statement skips the rest.\<close>

definition bind :: "('s, 'a) act \<Rightarrow> ('a \<Rightarrow> ('s, 'b) act) \<Rightarrow> ('s, 'b) act" where
  "bind m f = (\<lambda>s. case m s of (s', Inl e) \<Rightarrow> (s', Inl e) | (s', Inr x) \<Rightarrow> f x s')"

text \<open>A collaborator call without an effect on the modelled state.\<close>

definition lift :: "string + 'a \<Rightarrow> ('s, 'a) act" where
  "lift r = (case r of Inl e \<Rightarrow> raise (External e) | Inr x \<Rightarrow> ret x)"

text \<open>
  \<^verbatim>\<open>try: body finally: cleanup\<close>. The cleanup runs on both exits of the body; an
  exception of the cleanup replaces the outcome of the body.
\<close>

definition try_finally :: "('s, 'a) act \<Rightarrow> ('s, unit) act \<Rightarrow> ('s, 'a) act" where
  "try_finally body cleanup = (\<lambda>s.
     case body s of (s1, r) \<Rightarrow>
       (case cleanup s1 of (s2, Inl e) \<Rightarrow> (s2, Inl e) | (s2, Inr _) \<Rightarrow> (s2, r)))"

section \<open>Prompt templates\<close>

text \<open>
  A template of \<^verbatim>\<open>PromptTemplate\<close> or \<^verbatim>\<open>ChatPromptTemplate.from_template\<close> in its parsed
  form: literal text and \<^verbatim>\<open>{name}\<close> placeholders. Formatting replaces every placeholder
  by the value bound to its name and raises \<^verbatim>\<open>KeyError\<close> for a name that is not bound.
\<close>

datatype seg = Lit string | Var string

type_synonym template = "seg list"

fun format_template :: "template \<Rightarrow> (string \<rightharpoonup> string) \<Rightarrow> exn + string" where
  "format_template [] kw = Inr []"
| "format_template (Lit t # segs) kw =
     (case format_template segs kw of Inl e \<Rightarrow> Inl e | Inr r \<Rightarrow> Inr (t @ r))"
| "format_template (Var v # segs) kw =
     (case kw v of
        None \<Rightarrow> Inl (KeyError v)
      | Some x \<Rightarrow> (case format_template segs kw of Inl e \<Rightarrow> Inl e | Inr r \<Rightarrow> Inr (x @ r)))"

abbreviation NL :: string where
  "NL \<equiv> [CHR 0x0A]"

abbreviation indent :: string where
  "indent \<equiv> ''            ''"

text \<open>The template of lines 76 to 86 of \<^verbatim>\<open>llm_job_parser.py\<close>, with its indentation.\<close>

definition job_description_prompt :: template where
  "job_description_prompt =
    [Lit (NL @ indent @ ''You are an expert job description analyst. Your role is to meticulously analyze and interpret job descriptions. '' @ NL
          @ indent @ ''After analyzing the job description, answer the following question in a clear, and informative manner.'' @ NL
          @ indent @ NL
          @ indent @ ''Question: ''),
     Var ''question'',
     Lit (NL @ indent @ ''Job Description: ''),
     Var ''context'',
     Lit (NL @ indent @ ''Answer:'' @ NL @ indent)]"

text \<open>The template of lines 150 to 161.\<close>

definition extraction_prompt :: template where
  "extraction_prompt =
    [Lit (NL @ indent @ ''You are an expert in extracting specific information from job descriptions. '' @ NL
          @ indent @ ''Carefully read the job description below and provide a clear and concise answer to the question.'' @ NL
          @ NL
          @ indent @ ''Job Description: ''),
     Var ''job_description'',
     Lit (NL @ NL @ indent @ ''Question: ''),
     Var ''question'',
     Lit (NL @ indent @ ''Answer:'' @ NL @ indent)]"

section \<open>The collaborators of \<^verbatim>\<open>LLMResumer\<close>\<close>

text \<open>
  One field per call that leaves the file. \<open>None\<close> or \<open>Inr\<close> is a normal return,
  \<open>Some\<close> or \<open>Inl\<close> carries the description of the exception raised. \<open>'vs\<close> is the
  type of the FAISS vector store.
  \<^item> \<open>create_driver_selenium\<close>: the browser is started or the call raises;
  \<^item> \<open>driver_get\<close>, \<open>find_element\<close>, \<open>get_attribute\<close>: by URL; the last one
    returns the \<^verbatim>\<open>outerHTML\<close> of the body;
  \<^item> \<open>driver_quit\<close>: whether \<^verbatim>\<open>driver.quit()\<close> raises;
  \<^item> \<open>named_temporary_file\<close>: the path of the file \<^verbatim>\<open>tempfile.NamedTemporaryFile\<close>
    creates, or its exception;
  \<^item> \<open>temp_file_write\<close>: whether writing the given text (and closing the file at the
    end of the \<^verbatim>\<open>with\<close> block) raises;
  \<^item> \<open>loader_load\<close>: \<^verbatim>\<open>TextLoader(path, ...).load()\<close> by path and by the content of the
    file at that path (\<open>None\<close> when there is no such file);
  \<^item> \<open>split_documents\<close>: \<^verbatim>\<open>TokenTextSplitter(chunk_size, chunk_overlap).split_documents\<close>;
  \<^item> \<open>from_documents\<close>: \<^verbatim>\<open>FAISS.from_documents\<close> with \<^verbatim>\<open>self.llm_embeddings\<close>;
  \<^item> \<open>retriever\<close>: \<^verbatim>\<open>vectorstore.as_retriever().invoke(query)\<close>;
  \<^item> \<open>summarize_prompt_template\<close>: \<^verbatim>\<open>ChatPromptTemplate.from_template\<close> of the dedented
    \<^verbatim>\<open>self.strings.summarize_prompt_template\<close>, or its exception;
  \<^item> \<open>llm_cheap\<close>: \<^verbatim>\<open>self.llm_cheap | StrOutputParser()\<close> on a rendered prompt; the
    answer may depend on how many prompts were sent before, so two calls with the same
    prompt may differ.
\<close>

record 'vs env =
  create_driver_selenium :: "string option"
  driver_get :: "string \<Rightarrow> string option"
  find_element :: "string \<Rightarrow> string option"
  get_attribute :: "string \<Rightarrow> string + string"
  driver_quit :: "string option"
  named_temporary_file :: "string + string"
  temp_file_write :: "string \<Rightarrow> string option"
  loader_load :: "string \<Rightarrow> string option \<Rightarrow> string + document list"
  split_documents :: "nat \<Rightarrow> nat \<Rightarrow> document list \<Rightarrow> string + document list"
  from_documents :: "document list \<Rightarrow> string + 'vs"
  retriever :: "'vs \<Rightarrow> string \<Rightarrow> string + document list"
  summarize_prompt_template :: "string + template"
  llm_cheap :: "nat \<Rightarrow> string \<Rightarrow> string + string"

definition check :: "string option \<Rightarrow> ('s, unit) act" where
  "check r = (case r of Some e \<Rightarrow> raise (External e) | None \<Rightarrow> ret ())"

text \<open>Sending one command to the browser session with index \<open>i\<close>.\<close>

definition driver_send :: "nat \<Rightarrow> driver_cmd \<Rightarrow> (state, unit) act" where
  "driver_send i c = (\<lambda>s. (s\<lparr>drivers := (drivers s)[i := drivers s ! i @ [c]]\<rparr>, Inr ()))"

definition new_driver :: "'vs env \<Rightarrow> (state, nat) act" where
  "new_driver env = (\<lambda>s.
     case create_driver_selenium env of
       Some e \<Rightarrow> (s, Inl (External e))
     | None \<Rightarrow> (s\<lparr>drivers := drivers s @ [[]]\<rparr>, Inr (length (drivers s))))"

text \<open>One invocation of \<^verbatim>\<open>self.llm_cheap | StrOutputParser()\<close>: the prompt is logged.\<close>

definition llm_invoke :: "'vs env \<Rightarrow> string \<Rightarrow> (state, string) act" where
  "llm_invoke env p = (\<lambda>s.
     (s\<lparr>llm_log := llm_log s @ [p]\<rparr>,
      case llm_cheap env (length (llm_log s)) p of
        Inl e \<Rightarrow> Inl (External e)
      | Inr r \<Rightarrow> Inr r))"

text \<open>\<^verbatim>\<open>prompt | self.llm_cheap | StrOutputParser()\<close> invoked on a dict.\<close>

definition chain :: "'vs env \<Rightarrow> template \<Rightarrow> (string \<rightharpoonup> string) \<Rightarrow> (state, string) act" where
  "chain env t kw =
     (case format_template t kw of Inl e \<Rightarrow> raise e | Inr p \<Rightarrow> llm_invoke env p)"

section \<open>\<^verbatim>\<open>str.strip\<close>\<close>

text \<open>
  The characters \<^verbatim>\<open>str.strip()\<close> removes, among the code points below 256: tab, line
  feed, vertical tab, form feed, carriage return, the four separators 0x1C to 0x1F,
  space, next line (0x85) and no-break space (0xA0).
\<close>

definition isspace :: "char \<Rightarrow> bool" where
  "isspace c = ((of_char c :: nat) \<in> {9, 10, 11, 12, 13, 28, 29, 30, 31, 32, 133, 160})"

definition lstrip :: "string \<Rightarrow> string" where
  "lstrip s = dropWhile isspace s"

definition rstrip :: "string \<Rightarrow> string" where
  "rstrip s = rev (dropWhile isspace (rev s))"

definition strip :: "string \<Rightarrow> string" where
  "strip s = rstrip (lstrip s)"

section \<open>The extraction methods of \<^verbatim>\<open>LLMResumer\<close>\<close>

definition job_description_not_found :: string where
  "job_description_not_found =
     ''Job description not found. Please run get_job_description_from_url first.''"

text \<open>\<^verbatim>\<open>_extract_information\<close>, lines 139 to 168.\<close>

definition extract_information :: "'vs env \<Rightarrow> string \<Rightarrow> (state, string) act" where
  "extract_information env question = (\<lambda>s.
     case job_description s of
       None \<Rightarrow> (s, Inl (ValueError job_description_not_found))
     | Some jd \<Rightarrow>
         bind (chain env extraction_prompt
                 [''job_description'' \<mapsto> jd, ''question'' \<mapsto> question])
              (\<lambda>result. ret (strip result)) s)"

definition extract_company_name :: "'vs env \<Rightarrow> (state, string) act" where
  "extract_company_name env =
     extract_information env ''What is the company name in this job description?''"

definition extract_role :: "'vs env \<Rightarrow> (state, string) act" where
  "extract_role env =
     extract_information env
       ''What is the role or title being sought in this job description?''"

definition extract_location :: "'vs env \<Rightarrow> (state, string) act" where
  "extract_location env =
     extract_information env ''What is the location mentioned in this job description?''"

definition extract_recruiter_email :: "'vs env \<Rightarrow> (state, string) act" where
  "extract_recruiter_email env =
     extract_information env
       (''What is the recruiter'' @ [CHR 0x27] @ ''s email address in this job description?'')"

text \<open>\<^verbatim>\<open>extract_all_details\<close>, lines 170 to 181: the dict is filled key by key.\<close>

definition extract_all_details :: "'vs env \<Rightarrow> (state, string \<rightharpoonup> string) act" where
  "extract_all_details env =
     bind (extract_company_name env) (\<lambda>company_name.
     bind (extract_role env) (\<lambda>role.
     bind (extract_location env) (\<lambda>location.
     bind (extract_recruiter_email env) (\<lambda>recruiter_email.
     ret (Map.empty(''company_name'' \<mapsto> company_name, ''role'' \<mapsto> role,
            ''location'' \<mapsto> location, ''recruiter_email'' \<mapsto> recruiter_email))))))"

section \<open>\<^verbatim>\<open>get_job_description_from_url\<close>\<close>

text \<open>The constants of line 73.\<close>

definition chunk_size :: nat where
  "chunk_size = 500"

definition chunk_overlap :: nat where
  "chunk_overlap = 50"

text \<open>\<^verbatim>\<open>sep.join(items)\<close>.\<close>

fun str_join :: "string \<Rightarrow> string list \<Rightarrow> string" where
  "str_join sep [] = []"
| "str_join sep [x] = x"
| "str_join sep (x # y # ys) = x @ sep @ str_join sep (y # ys)"

text \<open>\<^verbatim>\<open>format_docs\<close>, lines 87 and 88.\<close>

definition format_docs :: "document list \<Rightarrow> string" where
  "format_docs docs = str_join (NL @ NL) (map page_content docs)"

text \<open>\<^verbatim>\<open>context_formatter = vectorstore.as_retriever() | format_docs\<close>, line 89.\<close>

definition context_formatter :: "'vs env \<Rightarrow> 'vs \<Rightarrow> string \<Rightarrow> (state, string) act" where
  "context_formatter env vectorstore query =
     bind (lift (retriever env vectorstore query)) (\<lambda>docs. ret (format_docs docs))"

definition chain_job_description :: "'vs env \<Rightarrow> (string \<rightharpoonup> string) \<Rightarrow> (state, string) act" where
  "chain_job_description env kw = chain env job_description_prompt kw"

definition chain_summarize ::
  "'vs env \<Rightarrow> template \<Rightarrow> (string \<rightharpoonup> string) \<Rightarrow> (state, string) act" where
  "chain_summarize env prompt_summarize kw = chain env prompt_summarize kw"

text \<open>
  \<^verbatim>\<open>qa_chain\<close>, lines 95 to 103, invoked on a query: the dict of the retrieved context
  and the passed-through query goes to the first chain, whose output, wrapped as
  \<^verbatim>\<open>{"text": output}\<close>, goes to the second.
\<close>

definition qa_chain :: "'vs env \<Rightarrow> 'vs \<Rightarrow> template \<Rightarrow> string \<Rightarrow> (state, string) act" where
  "qa_chain env vectorstore prompt_summarize query =
     bind (context_formatter env vectorstore query) (\<lambda>context.
     bind (chain_job_description env [''context'' \<mapsto> context, ''question'' \<mapsto> query])
       (\<lambda>output.
     chain_summarize env prompt_summarize [''text'' \<mapsto> output]))"

text \<open>
  Lines 65 to 67: the file is created empty under a fresh name and is kept when it is
  closed (\<^verbatim>\<open>delete=False\<close>); the text is written to it. When the write raises, the
  file is left as it was created.
\<close>

definition create_temp_file :: "'vs env \<Rightarrow> (state, string) act" where
  "create_temp_file env = (\<lambda>s.
     case named_temporary_file env of
       Inl e \<Rightarrow> (s, Inl (External e))
     | Inr path \<Rightarrow> (s\<lparr>files := (files s)(path \<mapsto> [])\<rparr>, Inr path))"

definition write_temp_file :: "'vs env \<Rightarrow> string \<Rightarrow> string \<Rightarrow> (state, unit) act" where
  "write_temp_file env path text = (\<lambda>s.
     case temp_file_write env text of
       Some e \<Rightarrow> (s, Inl (External e))
     | None \<Rightarrow> (s\<lparr>files := (files s)(path \<mapsto> text)\<rparr>, Inr ()))"

text \<open>Lines 69 and 70.\<close>

definition text_loader_load :: "'vs env \<Rightarrow> string \<Rightarrow> (state, document list) act" where
  "text_loader_load env path = (\<lambda>s. lift (loader_load env path (files s path)) s)"

text \<open>\<^verbatim>\<open>os.remove\<close>.\<close>

definition os_remove :: "string \<Rightarrow> (state, unit) act" where
  "os_remove path = (\<lambda>s.
     case files s path of
       None \<Rightarrow> (s, Inl (FileNotFoundError path))
     | Some _ \<Rightarrow> (s\<lparr>files := (files s)(path := None)\<rparr>, Inr ()))"

definition set_job_description :: "string \<Rightarrow> (state, unit) act" where
  "set_job_description result = (\<lambda>s. (s\<lparr>job_description := Some result\<rparr>, Inr ()))"

text \<open>
  Lines 57 to 105, statement by statement. \<^verbatim>\<open>time.sleep(3)\<close> has no effect on the
  state.
\<close>

definition get_job_description_from_url :: "'vs env \<Rightarrow> string \<Rightarrow> (state, unit) act" where
  "get_job_description_from_url env url_job_description =
     bind (new_driver env) (\<lambda>driver.
     bind (driver_send driver (Get url_job_description)) (\<lambda>_.
     bind (check (driver_get env url_job_description)) (\<lambda>_.
     bind (driver_send driver (FindElement ''tag name'' ''body'')) (\<lambda>_.
     bind (check (find_element env url_job_description)) (\<lambda>_.
     bind (driver_send driver (GetAttribute ''outerHTML'')) (\<lambda>_.
     bind (lift (get_attribute env url_job_description)) (\<lambda>response.
     bind (driver_send driver Quit) (\<lambda>_.
     bind (check (driver_quit env)) (\<lambda>_.
     bind (create_temp_file env) (\<lambda>temp_file_path.
     bind (write_temp_file env temp_file_path response) (\<lambda>_.
     bind (try_finally (text_loader_load env temp_file_path) (os_remove temp_file_path))
       (\<lambda>document.
     bind (lift (split_documents env chunk_size chunk_overlap document)) (\<lambda>all_splits.
     bind (lift (from_documents env all_splits)) (\<lambda>vectorstore.
     bind (lift (summarize_prompt_template env)) (\<lambda>prompt_summarize.
     bind (qa_chain env vectorstore prompt_summarize ''Provide, full job description'')
       (\<lambda>result.
     set_job_description result))))))))))))))))"

section \<open>\<^verbatim>\<open>ResumeFacade.create_resume_pdf\<close>\<close>

text \<open>
  The calls a facade makes into the style manager, the resume generator and
  \<^verbatim>\<open>HTML_to_PDF\<close>, in order.
\<close>

datatype facade_call =
    GetStylePath string
  | CreateResume string
  | CreateResumeJobDescriptionText string string
  | HTMLToPDF string

text \<open>
  The attributes of a \<^verbatim>\<open>ResumeFacade\<close>: \<^verbatim>\<open>selected_style\<close> (\<open>None\<close> is Python's
  \<^verbatim>\<open>None\<close>), \<^verbatim>\<open>driver\<close> (\<open>None\<close> while \<^verbatim>\<open>set_driver\<close> has not been called and the
  attribute does not exist), and the calls made so far.
\<close>

record facade =
  selected_style :: "string option"
  driver :: "driver option"
  calls :: "facade_call list"

record facade_env =
  get_style_path :: "string \<Rightarrow> string + string"
  create_resume :: "string \<Rightarrow> string + string"
  create_resume_job_description_text :: "string \<Rightarrow> string \<Rightarrow> string + string"
  html_to_pdf :: "string \<Rightarrow> string + string"
  facade_driver_quit :: "string option"

definition set_driver :: "driver \<Rightarrow> facade \<Rightarrow> facade" where
  "set_driver d f = f\<lparr>driver := Some d\<rparr>"

definition call :: "facade_call \<Rightarrow> string + 'a \<Rightarrow> (facade, 'a) act" where
  "call c r = (\<lambda>f. lift r (f\<lparr>calls := calls f @ [c]\<rparr>))"

text \<open>Reading \<^verbatim>\<open>self.driver\<close> and sending the driver one command.\<close>

definition self_driver_send :: "driver_cmd \<Rightarrow> (facade, unit) act" where
  "self_driver_send c = (\<lambda>f.
     case driver f of
       None \<Rightarrow> (f, Inl (AttributeError ''driver''))
     | Some d \<Rightarrow> (f\<lparr>driver := Some (d @ [c])\<rparr>, Inr ()))"

definition style_not_selected :: string where
  "style_not_selected = ''Devi scegliere uno stile prima di generare il PDF.''"

text \<open>Lines 80 to 99.\<close>

definition create_resume_pdf :: "facade_env \<Rightarrow> string option \<Rightarrow> (facade, string) act" where
  "create_resume_pdf env job_description_text = (\<lambda>f.
     case selected_style f of
       None \<Rightarrow> (f, Inl (ValueError style_not_selected))
     | Some style \<Rightarrow>
         bind (call (GetStylePath style) (get_style_path env style)) (\<lambda>style_path.
         bind (case job_description_text of
                 None \<Rightarrow> call (CreateResume style_path) (create_resume env style_path)
               | Some text \<Rightarrow>
                   call (CreateResumeJobDescriptionText style_path text)
                     (create_resume_job_description_text env style_path text))
           (\<lambda>html_resume.
         bind (self_driver_send (PrintToPDF html_resume)) (\<lambda>_.
         bind (call (HTMLToPDF html_resume) (html_to_pdf env html_resume)) (\<lambda>result.
         bind (self_driver_send Quit) (\<lambda>_.
         bind (check (facade_driver_quit env)) (\<lambda>_.
         ret result)))))) f)"

section \<open>The token splitter\<close>

text \<open>
  Modelled from the spec: \<^verbatim>\<open>TokenTextSplitter.split_documents\<close>, of the package
  \<^verbatim>\<open>langchain_text_splitters\<close>, is not under \<^verbatim>\<open>src/\<close>; the source only fixes its two
  parameters. The spec describes a ChunkSet as an "ordered sequence of text chunks,
  each with fixed maximum token length and fixed token overlap with its neighbor":
  a window of at most \<open>n\<close> tokens that moves forward by \<open>k\<close> tokens, \<open>n - k\<close> being
  the overlap, until it reaches the end of the token sequence. A text without tokens
  has no chunk.
\<close>

function token_windows :: "nat \<Rightarrow> nat \<Rightarrow> 'a list \<Rightarrow> 'a list list" where
  "token_windows n k ids =
     (if ids = [] then []
      else if length ids \<le> n \<or> k = 0 then [take n ids]
      else take n ids # token_windows n k (drop k ids))"
  by pat_completeness auto
termination
  by (relation "measure (\<lambda>(n, k, ids). length ids)") auto

definition chunk_set :: "'a list \<Rightarrow> 'a list list" where
  "chunk_set tokens = token_windows chunk_size (chunk_size - chunk_overlap) tokens"

section \<open>Concrete collaborators\<close>

text \<open>
  A session that has not fetched anything, and collaborators that answer in a fixed
  way: a page whose body is a short posting, a loader that returns the file's text as
  one document, a splitter and a vector store that keep the documents as they are, a
  retriever that returns all of them, and a model that gives the \<open>n\<close>-th of six
  answers to the \<open>n\<close>-th prompt and fails after that.
\<close>

definition fresh_session :: state where
  "fresh_session = \<lparr>job_description = None, files = Map.empty, drivers = [], llm_log = []\<rparr>"

definition job_url :: string where
  "job_url = ''https://example.com/jobs/42''"

definition stub_answers :: "string list" where
  "stub_answers =
     [''The posting: Senior Backend Engineer at Acme Corp, Remote, contact: jobs@acme.com'',
      ''Senior Backend Engineer at Acme Corp, Remote, contact: jobs@acme.com'',
      '' Acme Corp'' @ NL,
      ''Senior Backend Engineer  '',
      [CHR 0x09] @ ''Remote'',
      '' jobs@acme.com '']"

definition stub_llm :: "nat \<Rightarrow> string \<Rightarrow> string + string" where
  "stub_llm n p = (if n < length stub_answers then Inr (stub_answers ! n)
                   else Inl ''RateLimitError'')"

definition stub_loader :: "string \<Rightarrow> string option \<Rightarrow> string + document list" where
  "stub_loader path content =
     (case content of
        None \<Rightarrow> Inl ''RuntimeError: Error loading''
      | Some text \<Rightarrow> Inr [\<lparr>page_content = text, source = path\<rparr>])"

definition stub_env :: "document list env" where
  "stub_env =
     \<lparr>create_driver_selenium = None,
      driver_get = (\<lambda>url. None),
      find_element = (\<lambda>url. None),
      get_attribute = (\<lambda>url. Inr ''<body>Senior Backend Engineer at Acme Corp</body>''),
      driver_quit = None,
      named_temporary_file = Inr ''/tmp/tmpjob.html'',
      temp_file_write = (\<lambda>text. None),
      loader_load = stub_loader,
      split_documents = (\<lambda>size overlap docs. Inr docs),
      from_documents = (\<lambda>docs. Inr docs),
      retriever = (\<lambda>vectorstore query. Inr vectorstore),
      summarize_prompt_template = Inr [Lit ''Summarize: '', Var ''text''],
      llm_cheap = stub_llm\<rparr>"

text \<open>The page does not load; the write to the temporary file fails; a stage fails.\<close>

definition navigation_fails_env :: "document list env" where
  "navigation_fails_env = stub_env\<lparr>driver_get := (\<lambda>url. Some ''TimeoutException'')\<rparr>"

definition write_fails_env :: "document list env" where
  "write_fails_env =
     stub_env\<lparr>temp_file_write := (\<lambda>text. Some ''OSError: No space left on device'')\<rparr>"

definition stage1_fails_env :: "document list env" where
  "stage1_fails_env =
     stub_env\<lparr>llm_cheap := (\<lambda>n p. if n = 0 then Inl ''RateLimitError'' else stub_llm n p)\<rparr>"

definition stage2_fails_env :: "document list env" where
  "stage2_fails_env =
     stub_env\<lparr>llm_cheap := (\<lambda>n p. if n = 1 then Inl ''RateLimitError'' else stub_llm n p)\<rparr>"

text \<open>The session after one fetch with the first collaborators.\<close>

definition fetched_session :: state where
  "fetched_session = fst (get_job_description_from_url stub_env job_url fresh_session)"

text \<open>The sessions after a fetch with each of the failing collaborators, and after
  a second fetch on the fetched session.\<close>

definition navigation_failed_session :: state where
  "navigation_failed_session =
     fst (get_job_description_from_url navigation_fails_env job_url fresh_session)"

definition write_failed_session :: state where
  "write_failed_session =
     fst (get_job_description_from_url write_fails_env job_url fresh_session)"

definition stage1_failed_session :: state where
  "stage1_failed_session =
     fst (get_job_description_from_url stage1_fails_env job_url fresh_session)"

definition stage2_failed_session :: state where
  "stage2_failed_session =
     fst (get_job_description_from_url stage2_fails_env job_url fresh_session)"

definition refetched_session :: state where
  "refetched_session = fst (get_job_description_from_url stub_env job_url fetched_session)"

text \<open>A facade with and without a selected style, and its collaborators.\<close>

definition stub_facade_env :: facade_env where
  "stub_facade_env =
     \<lparr>get_style_path = (\<lambda>style. Inr (''styles/'' @ style @ ''.css'')),
      create_resume = (\<lambda>path. Inr ''<html>resume</html>''),
      create_resume_job_description_text = (\<lambda>path text. Inr ''<html>tailored</html>''),
      html_to_pdf = (\<lambda>html. Inr ''JVBERi0xLjQK''),
      facade_driver_quit = None\<rparr>"

definition new_facade :: facade where
  "new_facade = \<lparr>selected_style = None, driver = None, calls = []\<rparr>"

definition styled_facade :: facade where
  "styled_facade = set_driver [] (new_facade\<lparr>selected_style := Some ''Modern Blue''\<rparr>)"

section \<open>Basic facts\<close>

lemma bind_apply:
  "bind m f s = (case m s of (s', Inl e) \<Rightarrow> (s', Inl e) | (s', Inr x) \<Rightarrow> f x s')"
  by (simp add: bind_def)

lemma rstrip_decomp: "x = rstrip x @ rev (takeWhile isspace (rev x))"
proof -
  have "rstrip x @ rev (takeWhile isspace (rev x)) =
        rev (takeWhile isspace (rev x) @ dropWhile isspace (rev x))"
    unfolding rstrip_def by (simp only: rev_append)
  also have "\<dots> = x"
    by (simp only: takeWhile_dropWhile_id rev_rev_ident)
  finally show ?thesis by simp
qed

lemma strip_decomp:
  "a = takeWhile isspace a @ strip a @ rev (takeWhile isspace (rev (lstrip a)))"
proof -
  have "a = takeWhile isspace a @ lstrip a" by (simp add: lstrip_def)
  also have "lstrip a = strip a @ rev (takeWhile isspace (rev (lstrip a)))"
    unfolding strip_def by (rule rstrip_decomp)
  finally show ?thesis .
qed

lemma strip_last: "strip a \<noteq> [] \<Longrightarrow> \<not> isspace (last (strip a))"
  unfolding strip_def rstrip_def
  by (simp add: last_rev hd_dropWhile)

lemma strip_hd: "strip a \<noteq> [] \<Longrightarrow> \<not> isspace (hd (strip a))"
proof -
  assume ne: "strip a \<noteq> []"
  let ?x = "lstrip a"
  have x: "?x = strip a @ rev (takeWhile isspace (rev ?x))"
    unfolding strip_def by (rule rstrip_decomp)
  with ne have "hd ?x = hd (strip a)"
    by (metis hd_append2)
  moreover have "?x \<noteq> []" using x ne by auto
  then have "\<not> isspace (hd ?x)" unfolding lstrip_def by (rule hd_dropWhile)
  ultimately show ?thesis by simp
qed

lemma format_extraction:
  "\<exists>p. format_template extraction_prompt [''job_description'' \<mapsto> jd, ''question'' \<mapsto> q] = Inr p"
  by (simp add: extraction_prompt_def)

lemma extract_information_None:
  "job_description s = None \<Longrightarrow>
     extract_information env q s = (s, Inl (ValueError job_description_not_found))"
  by (simp add: extract_information_def)

lemma extract_information_Some:
  assumes "job_description s = Some jd"
    and "format_template extraction_prompt [''job_description'' \<mapsto> jd, ''question'' \<mapsto> q] = Inr p"
  shows "extract_information env q s =
     (s\<lparr>llm_log := llm_log s @ [p]\<rparr>,
      case llm_cheap env (length (llm_log s)) p of
        Inl e \<Rightarrow> Inl (External e) | Inr r \<Rightarrow> Inr (strip r))"
  using assms
  by (simp add: extract_information_def chain_def bind_def llm_invoke_def ret_def
      split: sum.splits)

lemmas act_defs = bind_def ret_def raise_def lift_def check_def try_finally_def
  driver_send_def new_driver_def llm_invoke_def chain_def context_formatter_def
  chain_job_description_def chain_summarize_def qa_chain_def create_temp_file_def
  write_temp_file_def text_loader_load_def os_remove_def set_job_description_def

lemma fetch_failure_keeps_summary:
  "get_job_description_from_url env url s = (s', Inl e) \<Longrightarrow>
     job_description s' = job_description s"
  unfolding get_job_description_from_url_def act_defs
  by (auto split: sum.splits option.splits prod.splits if_splits)

lemmas stub_defs = stub_env_def fresh_session_def stub_llm_def stub_answers_def
  stub_loader_def job_url_def navigation_fails_env_def write_fails_env_def
  stage1_fails_env_def stage2_fails_env_def

lemmas fetch_defs = get_job_description_from_url_def act_defs

lemma extract_information_Some_cases:
  assumes "job_description s = Some jd" and "extract_information env q s = (s', r)"
  shows "job_description s' = Some jd \<and> (\<forall>m. r \<noteq> Inl (ValueError m))"
  using assms
  by (auto simp: extract_information_def chain_def bind_def llm_invoke_def ret_def
      raise_def extraction_prompt_def split: sum.splits)

lemma extract_all_details_no_ValueError:
  assumes "job_description s = Some jd"
  shows "snd (extract_all_details env s) \<noteq> Inl (ValueError m)"
proof -
  obtain s1 r1 where e1: "extract_company_name env s = (s1, r1)" by fastforce
  obtain s2 r2 where e2: "extract_role env s1 = (s2, r2)" by fastforce
  obtain s3 r3 where e3: "extract_location env s2 = (s3, r3)" by fastforce
  obtain s4 r4 where e4: "extract_recruiter_email env s3 = (s4, r4)" by fastforce
  have c1: "job_description s1 = Some jd \<and> (\<forall>m. r1 \<noteq> Inl (ValueError m))"
    using extract_information_Some_cases [OF assms] e1
    by (simp add: extract_company_name_def)
  then have c2: "job_description s2 = Some jd \<and> (\<forall>m. r2 \<noteq> Inl (ValueError m))"
    using extract_information_Some_cases [of s1 jd] e2 by (simp add: extract_role_def)
  then have c3: "job_description s3 = Some jd \<and> (\<forall>m. r3 \<noteq> Inl (ValueError m))"
    using extract_information_Some_cases [of s2 jd] e3 by (simp add: extract_location_def)
  then have c4: "job_description s4 = Some jd \<and> (\<forall>m. r4 \<noteq> Inl (ValueError m))"
    using extract_information_Some_cases [of s3 jd] e4
    by (simp add: extract_recruiter_email_def)
  from e1 e2 e3 e4 c1 c2 c3 c4 show ?thesis
    by (auto simp: extract_all_details_def bind_apply ret_def split: sum.splits)
qed

lemma fetch_success_sets_summary:
  "get_job_description_from_url env url s = (s', Inr ()) \<Longrightarrow> job_description s' \<noteq> None"
  unfolding fetch_defs
  by (auto split: sum.splits option.splits prod.splits if_splits)

section \<open>The precondition of the extraction methods\<close>

text \<open>
  Claim C1. In a session whose \<^verbatim>\<open>job_description\<close> attribute has not been set, each of
  \<^verbatim>\<open>_extract_information\<close>, \<^verbatim>\<open>extract_company_name\<close>, \<^verbatim>\<open>extract_role\<close>,
  \<^verbatim>\<open>extract_location\<close>, \<^verbatim>\<open>extract_recruiter_email\<close> and \<^verbatim>\<open>extract_all_details\<close> raises
  the \<^verbatim>\<open>ValueError\<close> whose message says that the job description was not found, and
  leaves the session as it was. A fetch that returns normally has set the attribute,
  and in a session where it is set none of the six raises a \<^verbatim>\<open>ValueError\<close> of its
  own: what it can raise is the exception of the model call, which is \<open>External\<close>.
\<close>

theorem extraction_requires_summary:
  "(job_description s = None \<longrightarrow>
      extract_information env question s = (s, Inl (ValueError job_description_not_found)) \<and>
      extract_company_name env s = (s, Inl (ValueError job_description_not_found)) \<and>
      extract_role env s = (s, Inl (ValueError job_description_not_found)) \<and>
      extract_location env s = (s, Inl (ValueError job_description_not_found)) \<and>
      extract_recruiter_email env s = (s, Inl (ValueError job_description_not_found)) \<and>
      extract_all_details env s = (s, Inl (ValueError job_description_not_found)))
   \<and> job_description_not_found =
        ''Job description not found. Please run get_job_description_from_url first.''
   \<and> (get_job_description_from_url env url s0 = (s, Inr ()) \<longrightarrow> job_description s \<noteq> None)
   \<and> (job_description s \<noteq> None \<longrightarrow>
        (\<forall>m. snd (extract_information env question s) \<noteq> Inl (ValueError m) \<and>
             snd (extract_company_name env s) \<noteq> Inl (ValueError m) \<and>
             snd (extract_role env s) \<noteq> Inl (ValueError m) \<and>
             snd (extract_location env s) \<noteq> Inl (ValueError m) \<and>
             snd (extract_recruiter_email env s) \<noteq> Inl (ValueError m) \<and>
             snd (extract_all_details env s) \<noteq> Inl (ValueError m)))"
proof (intro conjI impI allI)
  assume none: "job_description s = None"
  show "extract_information env question s = (s, Inl (ValueError job_description_not_found))"
    using none by (rule extract_information_None)
  show "extract_company_name env s = (s, Inl (ValueError job_description_not_found))"
    using none by (simp add: extract_company_name_def extract_information_None)
  show "extract_role env s = (s, Inl (ValueError job_description_not_found))"
    using none by (simp add: extract_role_def extract_information_None)
  show "extract_location env s = (s, Inl (ValueError job_description_not_found))"
    using none by (simp add: extract_location_def extract_information_None)
  show "extract_recruiter_email env s = (s, Inl (ValueError job_description_not_found))"
    using none by (simp add: extract_recruiter_email_def extract_information_None)
  show "extract_all_details env s = (s, Inl (ValueError job_description_not_found))"
    using none
    by (simp add: extract_all_details_def extract_company_name_def bind_apply
        extract_information_None)
next
  show "job_description_not_found =
        ''Job description not found. Please run get_job_description_from_url first.''"
    by (simp add: job_description_not_found_def)
next
  assume "get_job_description_from_url env url s0 = (s, Inr ())"
  then show "job_description s \<noteq> None" by (rule fetch_success_sets_summary)
next
  fix m
  assume "job_description s \<noteq> None"
  then obtain jd where jd: "job_description s = Some jd" by auto
  have info: "snd (extract_information env q s) \<noteq> Inl (ValueError m)" for q
    using extract_information_Some_cases [OF jd, of env q] by (metis prod.collapse)
  show "snd (extract_information env question s) \<noteq> Inl (ValueError m)" by (rule info)
  show "snd (extract_company_name env s) \<noteq> Inl (ValueError m)"
    unfolding extract_company_name_def by (rule info)
  show "snd (extract_role env s) \<noteq> Inl (ValueError m)"
    unfolding extract_role_def by (rule info)
  show "snd (extract_location env s) \<noteq> Inl (ValueError m)"
    unfolding extract_location_def by (rule info)
  show "snd (extract_recruiter_email env s) \<noteq> Inl (ValueError m)"
    unfolding extract_recruiter_email_def by (rule info)
  show "snd (extract_all_details env s) \<noteq> Inl (ValueError m)"
    using jd by (rule extract_all_details_no_ValueError)
qed

text \<open>The run of the concrete collaborators on the fresh session.\<close>

lemma fetch_eval: "snd (get_job_description_from_url stub_env job_url fresh_session) = Inr ()"
  by (simp add: fetch_defs stub_defs job_description_prompt_def format_docs_def)

lemma fetched: 
  "get_job_description_from_url stub_env job_url fresh_session = (fetched_session, Inr ())"
  by (metis fetch_eval fetched_session_def prod.collapse)

lemma fetched_summary:
  "job_description fetched_session =
     Some ''Senior Backend Engineer at Acme Corp, Remote, contact: jobs@acme.com''"
  by (simp add: fetched_session_def fetch_defs stub_defs job_description_prompt_def
      format_docs_def)

theorem extraction_requires_summary_witness:
  "job_description fresh_session = None
   \<and> extract_all_details stub_env fresh_session =
       (fresh_session, Inl (ValueError job_description_not_found))
   \<and> extract_role stub_env fresh_session =
       (fresh_session, Inl (ValueError job_description_not_found))
   \<and> get_job_description_from_url stub_env job_url fresh_session = (fetched_session, Inr ())
   \<and> job_description fetched_session \<noteq> None
   \<and> snd (extract_all_details stub_env fetched_session)
        \<noteq> Inl (ValueError job_description_not_found)
   \<and> snd (extract_role stub_env fetched_session)
        \<noteq> Inl (ValueError job_description_not_found)"
proof -
  have none: "job_description fresh_session = None" by (simp add: fresh_session_def)
  have some: "job_description fetched_session \<noteq> None" by (simp add: fetched_summary)
  show ?thesis
    using none some fetched
      extraction_requires_summary [of fresh_session stub_env "[]" job_url fresh_session]
      extraction_requires_summary [of fetched_session stub_env "[]" job_url fresh_session]
    by simp
qed

section \<open>\<^verbatim>\<open>extract_all_details\<close>\<close>

lemma extract_information_run:
  assumes "job_description s = Some jd"
  shows "\<exists>p. format_template extraction_prompt
               [''job_description'' \<mapsto> jd, ''question'' \<mapsto> q] = Inr p \<and>
             extract_information env q s =
               (s\<lparr>llm_log := llm_log s @ [p]\<rparr>,
                case llm_cheap env (length (llm_log s)) p of
                  Inl e \<Rightarrow> Inl (External e) | Inr r \<Rightarrow> Inr (strip r))"
  using format_extraction [of jd q] extract_information_Some [OF assms] by blast

text \<open>
  Claim C5. When \<^verbatim>\<open>extract_all_details\<close> returns, its dict has exactly the keys
  \<^verbatim>\<open>company_name\<close>, \<^verbatim>\<open>role\<close>, \<^verbatim>\<open>location\<close> and \<^verbatim>\<open>recruiter_email\<close>. The four
  extraction prompts were sent one after the other, in this order, each rendered from
  the same cached summary, which is still cached afterwards; every value is the
  model's answer to its prompt after \<^verbatim>\<open>strip()\<close>: the answer without a run of
  whitespace at its start and one at its end, so that a value that is not empty
  neither starts nor ends with whitespace.
\<close>

theorem extract_all_details_mapping:
  assumes "extract_all_details env s = (s', Inr details)"
  shows "\<exists>jd p1 p2 p3 p4 a1 a2 a3 a4.
     job_description s = Some jd \<and>
     format_template extraction_prompt
       [''job_description'' \<mapsto> jd,
        ''question'' \<mapsto> ''What is the company name in this job description?''] = Inr p1 \<and>
     format_template extraction_prompt
       [''job_description'' \<mapsto> jd,
        ''question'' \<mapsto> ''What is the role or title being sought in this job description?'']
       = Inr p2 \<and>
     format_template extraction_prompt
       [''job_description'' \<mapsto> jd,
        ''question'' \<mapsto> ''What is the location mentioned in this job description?''] = Inr p3 \<and>
     format_template extraction_prompt
       [''job_description'' \<mapsto> jd,
        ''question'' \<mapsto> ''What is the recruiter'' @ [CHR 0x27]
           @ ''s email address in this job description?''] = Inr p4 \<and>
     llm_log s' = llm_log s @ [p1, p2, p3, p4] \<and>
     job_description s' = Some jd \<and>
     llm_cheap env (length (llm_log s)) p1 = Inr a1 \<and>
     llm_cheap env (length (llm_log s) + 1) p2 = Inr a2 \<and>
     llm_cheap env (length (llm_log s) + 2) p3 = Inr a3 \<and>
     llm_cheap env (length (llm_log s) + 3) p4 = Inr a4 \<and>
     details = [''company_name'' \<mapsto> strip a1, ''role'' \<mapsto> strip a2,
                ''location'' \<mapsto> strip a3, ''recruiter_email'' \<mapsto> strip a4] \<and>
     dom details = {''company_name'', ''role'', ''location'', ''recruiter_email''} \<and>
     (\<forall>v \<in> ran details. v = [] \<or> (\<not> isspace (hd v) \<and> \<not> isspace (last v))) \<and>
     (\<forall>a \<in> {a1, a2, a3, a4}. \<exists>pre suf.
        a = pre @ strip a @ suf \<and> (\<forall>c \<in> set pre. isspace c) \<and> (\<forall>c \<in> set suf. isspace c))"
proof -
  have "job_description s \<noteq> None"
  proof
    assume "job_description s = None"
    then have "extract_all_details env s = (s, Inl (ValueError job_description_not_found))"
      by (simp add: extract_all_details_def extract_company_name_def bind_apply
          extract_information_None)
    with assms show False by simp
  qed
  then obtain jd where jd: "job_description s = Some jd" by auto
  let ?n = "length (llm_log s)"
  obtain p1 where p1: "format_template extraction_prompt
       [''job_description'' \<mapsto> jd,
        ''question'' \<mapsto> ''What is the company name in this job description?''] = Inr p1"
    and e1: "extract_company_name env s =
       (s\<lparr>llm_log := llm_log s @ [p1]\<rparr>,
        case llm_cheap env ?n p1 of Inl e \<Rightarrow> Inl (External e) | Inr r \<Rightarrow> Inr (strip r))"
    using extract_information_run [OF jd] unfolding extract_company_name_def by blast
  let ?s1 = "s\<lparr>llm_log := llm_log s @ [p1]\<rparr>"
  have jd1: "job_description ?s1 = Some jd" using jd by simp
  obtain p2 where p2: "format_template extraction_prompt
       [''job_description'' \<mapsto> jd,
        ''question'' \<mapsto> ''What is the role or title being sought in this job description?'']
       = Inr p2"
    and e2: "extract_role env ?s1 =
       (?s1\<lparr>llm_log := llm_log ?s1 @ [p2]\<rparr>,
        case llm_cheap env (length (llm_log ?s1)) p2 of
          Inl e \<Rightarrow> Inl (External e) | Inr r \<Rightarrow> Inr (strip r))"
    using extract_information_run [OF jd1] unfolding extract_role_def by blast
  let ?s2 = "s\<lparr>llm_log := llm_log s @ [p1, p2]\<rparr>"
  have jd2: "job_description ?s2 = Some jd" using jd by simp
  obtain p3 where p3: "format_template extraction_prompt
       [''job_description'' \<mapsto> jd,
        ''question'' \<mapsto> ''What is the location mentioned in this job description?''] = Inr p3"
    and e3: "extract_location env ?s2 =
       (?s2\<lparr>llm_log := llm_log ?s2 @ [p3]\<rparr>,
        case llm_cheap env (length (llm_log ?s2)) p3 of
          Inl e \<Rightarrow> Inl (External e) | Inr r \<Rightarrow> Inr (strip r))"
    using extract_information_run [OF jd2] unfolding extract_location_def by blast
  let ?s3 = "s\<lparr>llm_log := llm_log s @ [p1, p2, p3]\<rparr>"
  have jd3: "job_description ?s3 = Some jd" using jd by simp
  obtain p4 where p4: "format_template extraction_prompt
       [''job_description'' \<mapsto> jd,
        ''question'' \<mapsto> ''What is the recruiter'' @ [CHR 0x27]
           @ ''s email address in this job description?''] = Inr p4"
    and e4: "extract_recruiter_email env ?s3 =
       (?s3\<lparr>llm_log := llm_log ?s3 @ [p4]\<rparr>,
        case llm_cheap env (length (llm_log ?s3)) p4 of
          Inl e \<Rightarrow> Inl (External e) | Inr r \<Rightarrow> Inr (strip r))"
    using extract_information_run [OF jd3] unfolding extract_recruiter_email_def by blast
  from assms e1 e2 e3 e4 have "\<exists>a1 a2 a3 a4.
      llm_cheap env ?n p1 = Inr a1 \<and> llm_cheap env (Suc ?n) p2 = Inr a2 \<and>
      llm_cheap env (Suc (Suc ?n)) p3 = Inr a3 \<and>
      llm_cheap env (Suc (Suc (Suc ?n))) p4 = Inr a4 \<and>
      s' = s\<lparr>llm_log := llm_log s @ [p1, p2, p3, p4]\<rparr> \<and>
      details = [''company_name'' \<mapsto> strip a1, ''role'' \<mapsto> strip a2,
                ''location'' \<mapsto> strip a3, ''recruiter_email'' \<mapsto> strip a4]"
    by (auto simp: extract_all_details_def bind_apply ret_def split: sum.splits)
  then obtain a1 a2 a3 a4 where
    a1: "llm_cheap env ?n p1 = Inr a1" and a2: "llm_cheap env (?n + 1) p2 = Inr a2"
    and a3: "llm_cheap env (?n + 2) p3 = Inr a3" and a4: "llm_cheap env (?n + 3) p4 = Inr a4"
    and s': "s' = s\<lparr>llm_log := llm_log s @ [p1, p2, p3, p4]\<rparr>"
    and d: "details = [''company_name'' \<mapsto> strip a1, ''role'' \<mapsto> strip a2,
                ''location'' \<mapsto> strip a3, ''recruiter_email'' \<mapsto> strip a4]"
    by (auto simp: numeral_3_eq_3 numeral_2_eq_2)
  have log: "llm_log s' = llm_log s @ [p1, p2, p3, p4]" unfolding s' by simp
  have jd': "job_description s' = Some jd" unfolding s' using jd by simp
  have dom: "dom details = {''company_name'', ''role'', ''location'', ''recruiter_email''}"
    unfolding d by auto
  have trimmed: "\<forall>v \<in> ran details. v = [] \<or> (\<not> isspace (hd v) \<and> \<not> isspace (last v))"
  proof
    fix v assume "v \<in> ran details"
    then obtain k where "details k = Some v" by (auto simp: ran_def)
    then have "v \<in> {strip a1, strip a2, strip a3, strip a4}"
      unfolding d by (auto split: if_splits)
    then show "v = [] \<or> (\<not> isspace (hd v) \<and> \<not> isspace (last v))"
      using strip_hd strip_last by auto
  qed
  have decomp: "\<forall>a \<in> {a1, a2, a3, a4}. \<exists>pre suf. a = pre @ strip a @ suf \<and>
      (\<forall>c \<in> set pre. isspace c) \<and> (\<forall>c \<in> set suf. isspace c)"
  proof
    fix a :: string
    show "\<exists>pre suf. a = pre @ strip a @ suf \<and>
      (\<forall>c \<in> set pre. isspace c) \<and> (\<forall>c \<in> set suf. isspace c)"
    proof (intro exI conjI)
      show "a = takeWhile isspace a @ strip a @ rev (takeWhile isspace (rev (lstrip a)))"
        by (rule strip_decomp)
      show "\<forall>c \<in> set (takeWhile isspace a). isspace c"
        by (auto dest: set_takeWhileD)
      show "\<forall>c \<in> set (rev (takeWhile isspace (rev (lstrip a)))). isspace c"
        by (auto dest: set_takeWhileD)
    qed
  qed
  show ?thesis
    by (rule exI [of _ jd], rule exI [of _ p1], rule exI [of _ p2], rule exI [of _ p3],
        rule exI [of _ p4], rule exI [of _ a1], rule exI [of _ a2], rule exI [of _ a3],
        rule exI [of _ a4], intro conjI)
      (fact jd p1 p2 p3 p4 log jd' a1 a2 a3 a4 d dom trimmed decomp)+
qed

text \<open>The four extractions on the fetched session.\<close>

lemma fetched_log_length: "length (llm_log fetched_session) = 2"
  by (simp add: fetched_session_def fetch_defs stub_defs job_description_prompt_def
      format_docs_def)

lemma stub_llm_eval: "n < 6 \<Longrightarrow> stub_llm n p = Inr (stub_answers ! n)"
  by (simp add: stub_llm_def stub_answers_def)

lemma strip_answers:
  "strip (stub_answers ! 2) = ''Acme Corp''"
  "strip (stub_answers ! 3) = ''Senior Backend Engineer''"
  "strip (stub_answers ! 4) = ''Remote''"
  "strip (stub_answers ! 5) = ''jobs@acme.com''"
  by (simp_all add: stub_answers_def strip_def lstrip_def rstrip_def isspace_def)

lemma stub_details:
  "snd (extract_all_details stub_env fetched_session) =
     Inr [''company_name'' \<mapsto> ''Acme Corp'', ''role'' \<mapsto> ''Senior Backend Engineer'',
          ''location'' \<mapsto> ''Remote'', ''recruiter_email'' \<mapsto> ''jobs@acme.com'']"
  by (simp add: extract_all_details_def extract_company_name_def extract_role_def
      extract_location_def extract_recruiter_email_def extract_information_def
      fetched_summary fetched_log_length chain_def extraction_prompt_def bind_def ret_def
      llm_invoke_def stub_env_def stub_llm_eval strip_answers)

theorem extract_all_details_mapping_witness:
  "extract_all_details stub_env fetched_session =
     (fst (extract_all_details stub_env fetched_session),
      Inr [''company_name'' \<mapsto> ''Acme Corp'', ''role'' \<mapsto> ''Senior Backend Engineer'',
           ''location'' \<mapsto> ''Remote'', ''recruiter_email'' \<mapsto> ''jobs@acme.com''])
   \<and> dom [''company_name'' \<mapsto> ''Acme Corp'', ''role'' \<mapsto> ''Senior Backend Engineer'',
           ''location'' \<mapsto> ''Remote'', ''recruiter_email'' \<mapsto> ''jobs@acme.com'']
       = {''company_name'', ''role'', ''location'', ''recruiter_email''}
   \<and> length (llm_log (fst (extract_all_details stub_env fetched_session))) = 6"
proof -
  have run: "extract_all_details stub_env fetched_session =
     (fst (extract_all_details stub_env fetched_session),
      Inr [''company_name'' \<mapsto> ''Acme Corp'', ''role'' \<mapsto> ''Senior Backend Engineer'',
           ''location'' \<mapsto> ''Remote'', ''recruiter_email'' \<mapsto> ''jobs@acme.com''])"
    using stub_details by (metis prod.collapse)
  have "dom [''company_name'' \<mapsto> ''Acme Corp'', ''role'' \<mapsto> ''Senior Backend Engineer'',
           ''location'' \<mapsto> ''Remote'', ''recruiter_email'' \<mapsto> ''jobs@acme.com'']
       = {''company_name'', ''role'', ''location'', ''recruiter_email''}
    \<and> length (llm_log (fst (extract_all_details stub_env fetched_session))) = 6"
    using extract_all_details_mapping [OF run]
    by (elim exE conjE) (simp only: fetched_log_length length_append list.size, simp)
  with run show ?thesis by (intro conjI) simp_all
qed

section \<open>The fetch and the summarization chain\<close>

text \<open>What a fetch that returns normally has done.\<close>

lemma fetch_success_run:
  assumes "get_job_description_from_url env url s = (s', Inr ())"
  obtains response path document all_splits vectorstore prompt_summarize docs p1 out1
    p2 result
  where "get_attribute env url = Inr response"
    and "named_temporary_file env = Inr path"
    and "loader_load env path (Some response) = Inr document"
    and "split_documents env chunk_size chunk_overlap document = Inr all_splits"
    and "from_documents env all_splits = Inr vectorstore"
    and "summarize_prompt_template env = Inr prompt_summarize"
    and "retriever env vectorstore ''Provide, full job description'' = Inr docs"
    and "format_template job_description_prompt
           [''context'' \<mapsto> format_docs docs,
            ''question'' \<mapsto> ''Provide, full job description''] = Inr p1"
    and "llm_cheap env (length (llm_log s)) p1 = Inr out1"
    and "format_template prompt_summarize [''text'' \<mapsto> out1] = Inr p2"
    and "llm_cheap env (Suc (length (llm_log s))) p2 = Inr result"
    and "s' = s\<lparr>drivers := drivers s @
                 [[Get url, FindElement ''tag name'' ''body'', GetAttribute ''outerHTML'',
                   Quit]],
               files := (files s)(path := None),
               llm_log := llm_log s @ [p1, p2],
               job_description := Some result\<rparr>"
  using assms unfolding fetch_defs
  by (auto split: sum.splits option.splits prod.splits if_splits)

text \<open>
  Claim C2. Whenever \<^verbatim>\<open>get_job_description_from_url\<close> raises, \<^verbatim>\<open>self.job_description\<close>
  is what it was before the call. When the model call of the first stage raises (one
  prompt was sent and the model failed on it), the operation raises that exception;
  likewise when the model call of the second stage raises (two prompts were sent and
  the model failed on the second). When the operation returns, both model calls have
  returned, and the attribute holds the answer of the second.
\<close>

theorem summarize_failure_leaves_cache:
  assumes "get_job_description_from_url env url s = (s', r)"
  shows "(\<forall>e. r = Inl e \<longrightarrow> job_description s' = job_description s)
    \<and> (\<forall>p1 x. llm_log s' = llm_log s @ [p1] \<and>
           llm_cheap env (length (llm_log s)) p1 = Inl x \<longrightarrow>
           r = Inl (External x) \<and> job_description s' = job_description s)
    \<and> (\<forall>p1 p2 x. llm_log s' = llm_log s @ [p1, p2] \<and>
           llm_cheap env (Suc (length (llm_log s))) p2 = Inl x \<longrightarrow>
           r = Inl (External x) \<and> job_description s' = job_description s)
    \<and> (r = Inr () \<longrightarrow>
          (\<exists>p1 p2 out1 out2. llm_log s' = llm_log s @ [p1, p2] \<and>
             llm_cheap env (length (llm_log s)) p1 = Inr out1 \<and>
             llm_cheap env (Suc (length (llm_log s))) p2 = Inr out2 \<and>
             job_description s' = Some out2))"
proof (intro conjI allI impI)
  fix e assume "r = Inl e"
  with assms show "job_description s' = job_description s"
    using fetch_failure_keeps_summary by blast
next
  fix p1 x
  assume "llm_log s' = llm_log s @ [p1] \<and> llm_cheap env (length (llm_log s)) p1 = Inl x"
  with assms show "r = Inl (External x)"
    unfolding fetch_defs
    by (auto split: sum.splits option.splits prod.splits if_splits)
  then show "job_description s' = job_description s"
    using assms fetch_failure_keeps_summary by blast
next
  fix p1 p2 x
  assume "llm_log s' = llm_log s @ [p1, p2] \<and>
           llm_cheap env (Suc (length (llm_log s))) p2 = Inl x"
  with assms show "r = Inl (External x)"
    unfolding fetch_defs
    by (auto split: sum.splits option.splits prod.splits if_splits)
  then show "job_description s' = job_description s"
    using assms fetch_failure_keeps_summary by blast
next
  assume "r = Inr ()"
  with assms show "\<exists>p1 p2 out1 out2. llm_log s' = llm_log s @ [p1, p2] \<and>
             llm_cheap env (length (llm_log s)) p1 = Inr out1 \<and>
             llm_cheap env (Suc (length (llm_log s))) p2 = Inr out2 \<and>
             job_description s' = Some out2"
    unfolding fetch_defs
    by (auto split: sum.splits option.splits prod.splits if_splits)
qed

text \<open>
  Claim C6. A fetch that returns has evaluated exactly two prompts, one after the
  other. The first is the job-description template rendered with the query
  \<^verbatim>\<open>Provide, full job description\<close> and the formatted documents the retriever returned
  for that query. The second is the caller's summarization template rendered with the
  first answer bound to \<^verbatim>\<open>text\<close> and nothing else. The cached summary is the
  second answer.
\<close>

theorem summarization_two_stages:
  assumes "get_job_description_from_url env url s = (s', Inr ())"
  shows "\<exists>all_splits vectorstore prompt_summarize docs p1 out1 p2 result.
     from_documents env all_splits = Inr vectorstore \<and>
     summarize_prompt_template env = Inr prompt_summarize \<and>
     retriever env vectorstore ''Provide, full job description'' = Inr docs \<and>
     format_template job_description_prompt
       [''context'' \<mapsto> format_docs docs,
        ''question'' \<mapsto> ''Provide, full job description''] = Inr p1 \<and>
     llm_cheap env (length (llm_log s)) p1 = Inr out1 \<and>
     format_template prompt_summarize [''text'' \<mapsto> out1] = Inr p2 \<and>
     llm_cheap env (Suc (length (llm_log s))) p2 = Inr result \<and>
     llm_log s' = llm_log s @ [p1, p2] \<and>
     job_description s' = Some result"
proof -
  from assms obtain response path document all_splits vectorstore prompt_summarize docs
    p1 out1 p2 result
    where "get_attribute env url = Inr response"
      and "loader_load env path (Some response) = Inr document"
      and f: "from_documents env all_splits = Inr vectorstore"
      "summarize_prompt_template env = Inr prompt_summarize"
      "retriever env vectorstore ''Provide, full job description'' = Inr docs"
      "format_template job_description_prompt
           [''context'' \<mapsto> format_docs docs,
            ''question'' \<mapsto> ''Provide, full job description''] = Inr p1"
      "llm_cheap env (length (llm_log s)) p1 = Inr out1"
      "format_template prompt_summarize [''text'' \<mapsto> out1] = Inr p2"
      "llm_cheap env (Suc (length (llm_log s))) p2 = Inr result"
    and s': "s' = s\<lparr>drivers := drivers s @
                 [[Get url, FindElement ''tag name'' ''body'', GetAttribute ''outerHTML'',
                   Quit]],
               files := (files s)(path := None),
               llm_log := llm_log s @ [p1, p2],
               job_description := Some result\<rparr>"
    by (rule fetch_success_run)
  have log: "llm_log s' = llm_log s @ [p1, p2]" unfolding s' by simp
  have jd: "job_description s' = Some result" unfolding s' by simp
  show ?thesis
    by (rule exI [of _ all_splits], rule exI [of _ vectorstore],
        rule exI [of _ prompt_summarize], rule exI [of _ docs], rule exI [of _ p1],
        rule exI [of _ out1], rule exI [of _ p2], rule exI [of _ result], intro conjI)
      (fact f log jd)+
qed

text \<open>
  Claim C9. A fetch does not read \<^verbatim>\<open>self.job_description\<close>: when it returns from a
  session, it returns in the same way, with the same final session, from that session
  with any other cached value, set or unset; the cached summary afterwards is the
  second answer of this fetch.
\<close>

theorem refetch_overwrites:
  assumes "get_job_description_from_url env url s = (s', Inr ())"
  shows "(\<forall>old. get_job_description_from_url env url (s\<lparr>job_description := old\<rparr>)
            = (s', Inr ()))
    \<and> (\<exists>p1 p2 result. llm_log s' = llm_log s @ [p1, p2] \<and>
          llm_cheap env (Suc (length (llm_log s))) p2 = Inr result \<and>
          job_description s' = Some result)"
proof (intro conjI allI)
  fix old
  from assms show "get_job_description_from_url env url (s\<lparr>job_description := old\<rparr>)
            = (s', Inr ())"
    unfolding fetch_defs
    by (auto split: sum.splits option.splits prod.splits if_splits)
next
  from assms show "\<exists>p1 p2 result. llm_log s' = llm_log s @ [p1, p2] \<and>
          llm_cheap env (Suc (length (llm_log s))) p2 = Inr result \<and>
          job_description s' = Some result"
    unfolding fetch_defs
    by (auto split: sum.splits option.splits prod.splits if_splits)
qed

text \<open>The runs of the concrete collaborators with a failing stage.\<close>

lemmas eval_defs = fetch_defs stub_defs job_description_prompt_def format_docs_def

lemma stage1_failed:
  "get_job_description_from_url stage1_fails_env job_url fresh_session =
     (stage1_failed_session, Inl (External ''RateLimitError''))"
  "length (llm_log stage1_failed_session) = 1"
  "llm_cheap stage1_fails_env 0 p = Inl ''RateLimitError''"
  "job_description stage1_failed_session = None"
  by (simp_all add: stage1_failed_session_def eval_defs)

lemma stage2_failed:
  "get_job_description_from_url stage2_fails_env job_url fresh_session =
     (stage2_failed_session, Inl (External ''RateLimitError''))"
  "length (llm_log stage2_failed_session) = 2"
  "llm_cheap stage2_fails_env (Suc 0) p = Inl ''RateLimitError''"
  "job_description stage2_failed_session = None"
  by (simp_all add: stage2_failed_session_def eval_defs)

lemma fresh_log: "llm_log fresh_session = []" "job_description fresh_session = None"
  "drivers fresh_session = []" "files fresh_session path = None"
  by (simp_all add: fresh_session_def)

lemma list_of_length_1: "length xs = 1 \<Longrightarrow> xs = [hd xs]"
  by (cases xs) auto

lemma list_of_length_2: "length xs = 2 \<Longrightarrow> xs = [hd xs, hd (tl xs)]"
  by (cases xs; cases "tl xs") auto

theorem summarize_failure_leaves_cache_witness:
  "get_job_description_from_url stage1_fails_env job_url fresh_session =
     (stage1_failed_session, Inl (External ''RateLimitError''))
   \<and> llm_log stage1_failed_session =
       llm_log fresh_session @ [hd (llm_log stage1_failed_session)]
   \<and> llm_cheap stage1_fails_env (length (llm_log fresh_session))
        (hd (llm_log stage1_failed_session)) = Inl ''RateLimitError''
   \<and> job_description stage1_failed_session = job_description fresh_session
   \<and> get_job_description_from_url stage2_fails_env job_url fresh_session =
     (stage2_failed_session, Inl (External ''RateLimitError''))
   \<and> llm_log stage2_failed_session =
       llm_log fresh_session
         @ [hd (llm_log stage2_failed_session), hd (tl (llm_log stage2_failed_session))]
   \<and> llm_cheap stage2_fails_env (Suc (length (llm_log fresh_session)))
        (hd (tl (llm_log stage2_failed_session))) = Inl ''RateLimitError''
   \<and> job_description stage2_failed_session = job_description fresh_session
   \<and> get_job_description_from_url stub_env job_url fresh_session =
       (fetched_session, Inr ())
   \<and> length (llm_log fetched_session) = length (llm_log fresh_session) + 2
   \<and> job_description fetched_session \<noteq> job_description fresh_session"
proof -
  have l1: "llm_log stage1_failed_session =
       llm_log fresh_session @ [hd (llm_log stage1_failed_session)]"
    using list_of_length_1 [OF stage1_failed(2)] by (simp add: fresh_log)
  have c1: "llm_cheap stage1_fails_env (length (llm_log fresh_session))
        (hd (llm_log stage1_failed_session)) = Inl ''RateLimitError''"
    by (simp add: fresh_log stage1_failed(3))
  have j1: "job_description stage1_failed_session = job_description fresh_session"
    using summarize_failure_leaves_cache [OF stage1_failed(1)] l1 c1 by blast
  have l2: "llm_log stage2_failed_session =
       llm_log fresh_session
         @ [hd (llm_log stage2_failed_session), hd (tl (llm_log stage2_failed_session))]"
    using list_of_length_2 [OF stage2_failed(2)] by (simp add: fresh_log)
  have c2: "llm_cheap stage2_fails_env (Suc (length (llm_log fresh_session)))
        (hd (tl (llm_log stage2_failed_session))) = Inl ''RateLimitError''"
    by (simp add: fresh_log stage2_failed(3))
  have j2: "job_description stage2_failed_session = job_description fresh_session"
    using summarize_failure_leaves_cache [OF stage2_failed(1)] l2 c2 by blast
  have "\<exists>p1 p2 out1 out2. llm_log fetched_session = llm_log fresh_session @ [p1, p2] \<and>
      job_description fetched_session = Some out2"
    using summarize_failure_leaves_cache [OF fetched] by blast
  then have ok: "length (llm_log fetched_session) = length (llm_log fresh_session) + 2
      \<and> job_description fetched_session \<noteq> job_description fresh_session"
    by (auto simp: fresh_log)
  from stage1_failed(1) l1 c1 j1 stage2_failed(1) l2 c2 j2 fetched ok
  show ?thesis by (intro conjI) simp_all
qed

theorem summarization_two_stages_witness:
  "get_job_description_from_url stub_env job_url fresh_session = (fetched_session, Inr ())
   \<and> length (llm_log fetched_session) = 2
   \<and> llm_cheap stub_env (Suc (length (llm_log fresh_session)))
        (llm_log fetched_session ! 1) = Inr (stub_answers ! 1)
   \<and> job_description fetched_session = Some (stub_answers ! 1)"
proof -
  from summarization_two_stages [OF fetched] obtain p1 p2 result where
    "llm_log fetched_session = llm_log fresh_session @ [p1, p2]"
    "llm_cheap stub_env (Suc (length (llm_log fresh_session))) p2 = Inr result"
    "job_description fetched_session = Some result"
    by blast
  with fetched show ?thesis
    by (simp add: fresh_log stub_env_def stub_llm_def stub_answers_def)
qed

lemma refetched:
  "get_job_description_from_url stub_env job_url fetched_session =
     (refetched_session, Inr ())"
proof -
  have "snd (get_job_description_from_url stub_env job_url fetched_session) = Inr ()"
    by (simp add: eval_defs fetched_log_length)
  then show ?thesis by (metis refetched_session_def prod.collapse)
qed

theorem refetch_overwrites_witness:
  "get_job_description_from_url stub_env job_url fetched_session =
     (refetched_session, Inr ())
   \<and> job_description fetched_session = Some (stub_answers ! 1)
   \<and> job_description refetched_session = Some (stub_answers ! 3)
   \<and> get_job_description_from_url stub_env job_url
        (fetched_session\<lparr>job_description := None\<rparr>) = (refetched_session, Inr ())"
proof -
  from refetch_overwrites [OF refetched] obtain p2 result where
    a: "\<forall>old. get_job_description_from_url stub_env job_url
            (fetched_session\<lparr>job_description := old\<rparr>) = (refetched_session, Inr ())"
    and b: "llm_cheap stub_env (Suc (length (llm_log fetched_session))) p2 = Inr result"
      "job_description refetched_session = Some result"
    by blast
  from b have "job_description refetched_session = Some (stub_answers ! 3)"
    by (simp add: fetched_log_length stub_env_def stub_llm_eval)
  moreover have "job_description fetched_session = Some (stub_answers ! 1)"
    by (simp add: fetched_summary stub_answers_def)
  ultimately show ?thesis using a refetched by simp
qed

section \<open>The browser session and the temporary file\<close>

text \<open>The runs in which the page does not load and in which the write fails.\<close>

lemma navigation_failed:
  "get_job_description_from_url navigation_fails_env job_url fresh_session =
     (navigation_failed_session, Inl (External ''TimeoutException''))"
  "drivers navigation_failed_session = [[Get job_url]]"
  by (simp_all add: navigation_failed_session_def eval_defs)

lemma write_failed:
  "get_job_description_from_url write_fails_env job_url fresh_session =
     (write_failed_session, Inl (External ''OSError: No space left on device''))"
  "drivers write_failed_session =
     [[Get job_url, FindElement ''tag name'' ''body'', GetAttribute ''outerHTML'', Quit]]"
  "files write_failed_session ''/tmp/tmpjob.html'' = Some []"
  by (simp_all add: write_failed_session_def eval_defs)

lemma write_fails_env_page:
  "create_driver_selenium write_fails_env = None"
  "driver_get write_fails_env job_url = None"
  "find_element write_fails_env job_url = None"
  "get_attribute write_fails_env job_url =
     Inr ''<body>Senior Backend Engineer at Acme Corp</body>''"
  "named_temporary_file write_fails_env = Inr ''/tmp/tmpjob.html''"
  by (simp_all add: stub_defs)

text \<open>
  Claim C4, as it is stated, fails: when \<^verbatim>\<open>driver.get\<close> raises, the operation raises
  and the browser session it created has received \<^verbatim>\<open>get\<close> only, not \<^verbatim>\<open>quit\<close>.
\<close>

theorem browser_not_quit_when_navigation_fails:
  "get_job_description_from_url navigation_fails_env job_url fresh_session =
     (navigation_failed_session, Inl (External ''TimeoutException''))
   \<and> length (drivers navigation_failed_session) = Suc (length (drivers fresh_session))
   \<and> \<not> quit_called (drivers navigation_failed_session ! length (drivers fresh_session))"
  by (simp add: navigation_failed fresh_log quit_called_def)

text \<open>
  Claim C4, amended. When the browser starts and page navigation and body extraction
  (\<^verbatim>\<open>get\<close>, \<^verbatim>\<open>find_element\<close>, \<^verbatim>\<open>get_attribute\<close>) succeed, the session created at the
  start has received \<^verbatim>\<open>quit\<close> as its last command when the operation completes,
  whether the later steps succeed or raise; in particular this holds whenever the
  operation returns. The sessions that existed before are untouched.
\<close>

theorem browser_quit_after_body_extraction:
  assumes "get_job_description_from_url env url s = (s', r)"
    and "(create_driver_selenium env = None \<and> driver_get env url = None \<and>
          find_element env url = None \<and> get_attribute env url = Inr response)
         \<or> r = Inr ()"
  shows "drivers s' = drivers s @
           [[Get url, FindElement ''tag name'' ''body'', GetAttribute ''outerHTML'', Quit]]
    \<and> quit_called (drivers s' ! length (drivers s))"
proof -
  have "drivers s' = drivers s @
           [[Get url, FindElement ''tag name'' ''body'', GetAttribute ''outerHTML'', Quit]]"
    using assms unfolding fetch_defs
    by (auto split: sum.splits option.splits prod.splits if_splits)
  then show ?thesis by (simp add: quit_called_def)
qed

theorem browser_quit_after_body_extraction_witness:
  "get_job_description_from_url write_fails_env job_url fresh_session =
     (write_failed_session, Inl (External ''OSError: No space left on device''))
   \<and> create_driver_selenium write_fails_env = None
   \<and> driver_get write_fails_env job_url = None
   \<and> find_element write_fails_env job_url = None
   \<and> get_attribute write_fails_env job_url =
        Inr ''<body>Senior Backend Engineer at Acme Corp</body>''
   \<and> quit_called (drivers write_failed_session ! length (drivers fresh_session))
   \<and> get_job_description_from_url stub_env job_url fresh_session = (fetched_session, Inr ())
   \<and> quit_called (drivers fetched_session ! length (drivers fresh_session))"
proof -
  have a: "quit_called (drivers write_failed_session ! length (drivers fresh_session))"
    using browser_quit_after_body_extraction [OF write_failed(1)]
      write_fails_env_page(1-4)
    by blast
  have b: "quit_called (drivers fetched_session ! length (drivers fresh_session))"
    using browser_quit_after_body_extraction [OF fetched] by blast
  from a b write_failed(1) write_fails_env_page(1-4) fetched show ?thesis by simp
qed

text \<open>
  Apart from a failed write, the file the fetch created is gone when the fetch
  completes, or the fetch has not touched the files at all.
\<close>

lemma temp_file_removed_unless_write_fails:
  assumes "get_job_description_from_url env url s = (s', r)"
    and "named_temporary_file env = Inr path"
  shows "files s' path = None \<or> files s' = files s
    \<or> (\<exists>response e. get_attribute env url = Inr response \<and>
          temp_file_write env response = Some e \<and> r = Inl (External e) \<and>
          files s' = (files s)(path \<mapsto> []))"
  using assms unfolding fetch_defs
  by (auto split: sum.splits option.splits prod.splits if_splits)

text \<open>
  Claim C3 fails on the code where the write to the temporary file raises: the
  \<^verbatim>\<open>with\<close> block is left before the \<^verbatim>\<open>try\<close> whose \<^verbatim>\<open>finally\<close> removes the file, and
  the file, created with \<^verbatim>\<open>delete=False\<close>, stays on disk. Here the file did not exist
  before the fetch, the fetch raises, and the file exists afterwards.
\<close>

theorem temp_file_left_when_write_fails:
  "files fresh_session ''/tmp/tmpjob.html'' = None
   \<and> named_temporary_file write_fails_env = Inr ''/tmp/tmpjob.html''
   \<and> get_job_description_from_url write_fails_env job_url fresh_session =
       (write_failed_session, Inl (External ''OSError: No space left on device''))
   \<and> files write_failed_session ''/tmp/tmpjob.html'' \<noteq> None"
  by (simp add: write_failed fresh_log write_fails_env_page)

section \<open>The retrieval context\<close>

lemma str_join_Cons: "str_join sep (x # xs) = x @ concat (map (\<lambda>y. sep @ y) xs)"
  by (induction xs arbitrary: x) auto

lemma map_nth_fun: "map (\<lambda>i. g (xs ! i)) [0..<length xs] = map g xs"
proof -
  have "map (\<lambda>i. g (xs ! i)) [0..<length xs] = map g (map ((!) xs) [0..<length xs])"
    by simp
  then show ?thesis by (simp only: map_nth)
qed

lemma str_join_indexed:
  "str_join sep xs =
     concat (map (\<lambda>i. (if i = 0 then [] else sep) @ xs ! i) [0..<length xs])"
proof (cases xs)
  case Nil
  then show ?thesis by simp
next
  case (Cons x ys)
  have "[0..<length (x # ys)] = 0 # map Suc [0..<length ys]"
    by (simp add: upt_conv_Cons map_Suc_upt del: upt_Suc)
  then have "concat (map (\<lambda>i. (if i = 0 then [] else sep) @ (x # ys) ! i)
               [0..<length (x # ys)])
             = x @ concat (map (\<lambda>i. sep @ ys ! i) [0..<length ys])"
    by (simp add: comp_def)
  also have "map (\<lambda>i. sep @ ys ! i) [0..<length ys] = map (\<lambda>y. sep @ y) ys"
    by (rule map_nth_fun)
  finally show ?thesis using Cons by (simp add: str_join_Cons)
qed

text \<open>
  Claim C8. The context that \<^verbatim>\<open>format_docs\<close> builds from the documents the retriever
  returned is, for each position of the returned list in order, the text of the
  document at that position, preceded by two newlines except at the first position:
  every returned instance occurs once, at its place, also when two of them are equal.
  This string is what \<^verbatim>\<open>qa_chain\<close> binds to \<^verbatim>\<open>context\<close> in the first prompt.
\<close>

theorem format_docs_joins_in_order:
  "format_docs docs =
     concat (map (\<lambda>i. (if i = 0 then [] else NL @ NL) @ page_content (docs ! i))
               [0..<length docs])
   \<and> format_docs [d, d] = page_content d @ NL @ NL @ page_content d
   \<and> (retriever env vectorstore query = Inr docs \<longrightarrow>
        context_formatter env vectorstore query s = (s, Inr (format_docs docs)) \<and>
        qa_chain env vectorstore prompt_summarize query s =
          bind (chain_job_description env
                  [''context'' \<mapsto> format_docs docs, ''question'' \<mapsto> query])
               (\<lambda>out1. chain_summarize env prompt_summarize [''text'' \<mapsto> out1]) s)"
proof (intro conjI impI)
  have "format_docs docs =
     concat (map (\<lambda>i. (if i = 0 then [] else NL @ NL) @ map page_content docs ! i)
               [0..<length (map page_content docs)])"
    unfolding format_docs_def by (rule str_join_indexed)
  also have "map (\<lambda>i. (if i = 0 then [] else NL @ NL) @ map page_content docs ! i)
               [0..<length (map page_content docs)]
             = map (\<lambda>i. (if i = 0 then [] else NL @ NL) @ page_content (docs ! i))
               [0..<length docs]"
    by (rule map_cong) auto
  finally show "format_docs docs =
     concat (map (\<lambda>i. (if i = 0 then [] else NL @ NL) @ page_content (docs ! i))
               [0..<length docs])" .
next
  show "format_docs [d, d] = page_content d @ NL @ NL @ page_content d"
    by (simp add: format_docs_def)
next
  assume r: "retriever env vectorstore query = Inr docs"
  then show "context_formatter env vectorstore query s = (s, Inr (format_docs docs))"
    by (simp add: context_formatter_def bind_def lift_def ret_def)
  then show "qa_chain env vectorstore prompt_summarize query s =
          bind (chain_job_description env
                  [''context'' \<mapsto> format_docs docs, ''question'' \<mapsto> query])
               (\<lambda>out1. chain_summarize env prompt_summarize [''text'' \<mapsto> out1]) s"
    by (simp add: qa_chain_def bind_apply)
qed

theorem format_docs_joins_in_order_witness:
  "retriever stub_env
     [\<lparr>page_content = ''Acme Corp'', source = ''a''\<rparr>,
      \<lparr>page_content = ''Remote'', source = ''a''\<rparr>,
      \<lparr>page_content = ''Acme Corp'', source = ''a''\<rparr>] ''Provide, full job description''
     = Inr [\<lparr>page_content = ''Acme Corp'', source = ''a''\<rparr>,
            \<lparr>page_content = ''Remote'', source = ''a''\<rparr>,
            \<lparr>page_content = ''Acme Corp'', source = ''a''\<rparr>]
   \<and> context_formatter stub_env
       [\<lparr>page_content = ''Acme Corp'', source = ''a''\<rparr>,
        \<lparr>page_content = ''Remote'', source = ''a''\<rparr>,
        \<lparr>page_content = ''Acme Corp'', source = ''a''\<rparr>] ''Provide, full job description''
       fresh_session
     = (fresh_session, Inr (''Acme Corp'' @ NL @ NL @ ''Remote'' @ NL @ NL @ ''Acme Corp''))"
proof -
  let ?docs = "[\<lparr>page_content = ''Acme Corp'', source = ''a''\<rparr>,
      \<lparr>page_content = ''Remote'', source = ''a''\<rparr>,
      \<lparr>page_content = ''Acme Corp'', source = ''a''\<rparr>]"
  have r: "retriever stub_env ?docs ''Provide, full job description'' = Inr ?docs"
    by (simp add: stub_env_def)
  have "context_formatter stub_env ?docs ''Provide, full job description'' fresh_session
          = (fresh_session, Inr (format_docs ?docs))"
    using format_docs_joins_in_order
      [of ?docs _ stub_env ?docs "''Provide, full job description''" fresh_session] r
    by blast
  moreover have "format_docs ?docs =
      ''Acme Corp'' @ NL @ NL @ ''Remote'' @ NL @ NL @ ''Acme Corp''"
    by (simp add: format_docs_def)
  ultimately show ?thesis using r by simp
qed

section \<open>The style guard of \<^verbatim>\<open>create_resume_pdf\<close>\<close>

lemmas facade_defs = create_resume_pdf_def call_def self_driver_send_def bind_def ret_def
  raise_def lift_def check_def

lemma create_resume_pdf_success:
  assumes "create_resume_pdf env text f = (f', Inr pdf)"
  obtains style d style_path html
  where "selected_style f = Some style" and "driver f = Some d"
    and "get_style_path env style = Inr style_path"
    and "(case text of None \<Rightarrow> create_resume env style_path
          | Some t \<Rightarrow> create_resume_job_description_text env style_path t) = Inr html"
    and "html_to_pdf env html = Inr pdf"
    and "facade_driver_quit env = None"
    and "f' = f\<lparr>driver := Some (d @ [PrintToPDF html, Quit]),
               calls := calls f @
                 [GetStylePath style,
                  (case text of None \<Rightarrow> CreateResume style_path
                   | Some t \<Rightarrow> CreateResumeJobDescriptionText style_path t),
                  HTMLToPDF html]\<rparr>"
  using assms unfolding facade_defs
  by (auto split: sum.splits option.splits prod.splits if_splits)

text \<open>
  Claim C10. With \<^verbatim>\<open>selected_style\<close> being \<^verbatim>\<open>None\<close>, \<^verbatim>\<open>create_resume_pdf\<close> raises the
  \<^verbatim>\<open>ValueError\<close> and the facade, with its driver and its record of calls, is what it
  was: the style manager, the resume generator, \<^verbatim>\<open>HTML_to_PDF\<close> and the driver have
  not been called. When the method returns, a style was selected, and the driver has
  received \<^verbatim>\<open>quit\<close> as its last command, after the conversion to PDF, which came after
  the style path lookup and the resume generation.
\<close>

theorem create_resume_pdf_style_guard:
  "(selected_style f = None \<longrightarrow>
      create_resume_pdf env text f = (f, Inl (ValueError style_not_selected)))
   \<and> style_not_selected = ''Devi scegliere uno stile prima di generare il PDF.''
   \<and> (create_resume_pdf env text f = (f', Inr pdf) \<longrightarrow>
        (\<exists>style d style_path html.
           selected_style f = Some style \<and> driver f = Some d \<and>
           html_to_pdf env html = Inr pdf \<and>
           driver f' = Some (d @ [PrintToPDF html, Quit]) \<and>
           quit_called (d @ [PrintToPDF html, Quit]) \<and>
           calls f' = calls f @
             [GetStylePath style,
              (case text of None \<Rightarrow> CreateResume style_path
               | Some t \<Rightarrow> CreateResumeJobDescriptionText style_path t),
              HTMLToPDF html] \<and>
           selected_style f' = selected_style f))"
proof (intro conjI impI)
  assume "selected_style f = None"
  then show "create_resume_pdf env text f = (f, Inl (ValueError style_not_selected))"
    by (simp add: create_resume_pdf_def)
next
  show "style_not_selected = ''Devi scegliere uno stile prima di generare il PDF.''"
    by (simp add: style_not_selected_def)
next
  assume "create_resume_pdf env text f = (f', Inr pdf)"
  then obtain style d style_path html
    where a: "selected_style f = Some style" "driver f = Some d"
      "html_to_pdf env html = Inr pdf"
    and f': "f' = f\<lparr>driver := Some (d @ [PrintToPDF html, Quit]),
               calls := calls f @
                 [GetStylePath style,
                  (case text of None \<Rightarrow> CreateResume style_path
                   | Some t \<Rightarrow> CreateResumeJobDescriptionText style_path t),
                  HTMLToPDF html]\<rparr>"
    by (rule create_resume_pdf_success)
  have b: "driver f' = Some (d @ [PrintToPDF html, Quit])"
    "quit_called (d @ [PrintToPDF html, Quit])"
    "calls f' = calls f @
             [GetStylePath style,
              (case text of None \<Rightarrow> CreateResume style_path
               | Some t \<Rightarrow> CreateResumeJobDescriptionText style_path t),
              HTMLToPDF html]"
    "selected_style f' = selected_style f"
    unfolding f' by (simp_all add: quit_called_def)
  show "\<exists>style d style_path html.
           selected_style f = Some style \<and> driver f = Some d \<and>
           html_to_pdf env html = Inr pdf \<and>
           driver f' = Some (d @ [PrintToPDF html, Quit]) \<and>
           quit_called (d @ [PrintToPDF html, Quit]) \<and>
           calls f' = calls f @
             [GetStylePath style,
              (case text of None \<Rightarrow> CreateResume style_path
               | Some t \<Rightarrow> CreateResumeJobDescriptionText style_path t),
              HTMLToPDF html] \<and>
           selected_style f' = selected_style f"
    by (rule exI [of _ style], rule exI [of _ d], rule exI [of _ style_path],
        rule exI [of _ html], intro conjI) (fact a b)+
qed

lemma styled_run:
  "snd (create_resume_pdf stub_facade_env None styled_facade) = Inr ''JVBERi0xLjQK''"
  "driver styled_facade = Some []"
  "calls styled_facade = []"
  by (simp_all add: facade_defs stub_facade_env_def styled_facade_def new_facade_def
      set_driver_def)

theorem create_resume_pdf_style_guard_witness:
  "selected_style new_facade = None
   \<and> create_resume_pdf stub_facade_env None new_facade =
       (new_facade, Inl (ValueError style_not_selected))
   \<and> create_resume_pdf stub_facade_env None styled_facade =
       (fst (create_resume_pdf stub_facade_env None styled_facade), Inr ''JVBERi0xLjQK'')
   \<and> driver (fst (create_resume_pdf stub_facade_env None styled_facade)) =
       Some [PrintToPDF ''<html>resume</html>'', Quit]
   \<and> length (calls (fst (create_resume_pdf stub_facade_env None styled_facade))) = 3"
proof -
  have none: "selected_style new_facade = None" by (simp add: new_facade_def)
  have a: "create_resume_pdf stub_facade_env None new_facade =
       (new_facade, Inl (ValueError style_not_selected))"
    using create_resume_pdf_style_guard [of new_facade stub_facade_env None] none by blast
  have run: "create_resume_pdf stub_facade_env None styled_facade =
       (fst (create_resume_pdf stub_facade_env None styled_facade), Inr ''JVBERi0xLjQK'')"
    using styled_run(1) by (metis prod.collapse)
  from create_resume_pdf_style_guard
    [of styled_facade stub_facade_env None
       "fst (create_resume_pdf stub_facade_env None styled_facade)" "''JVBERi0xLjQK''"] run
  obtain d style_path html style where
    "driver styled_facade = Some d" "html_to_pdf stub_facade_env html = Inr ''JVBERi0xLjQK''"
    "calls (fst (create_resume_pdf stub_facade_env None styled_facade)) =
       calls styled_facade @ [GetStylePath style, CreateResume style_path, HTMLToPDF html]"
    by auto
  then have b: "length (calls (fst (create_resume_pdf stub_facade_env None styled_facade))) = 3"
    by (simp add: styled_run)
  have c: "driver (fst (create_resume_pdf stub_facade_env None styled_facade)) =
       Some [PrintToPDF ''<html>resume</html>'', Quit]"
    by (simp add: facade_defs stub_facade_env_def styled_facade_def new_facade_def
      set_driver_def)
  from none a run b c show ?thesis by simp
qed

section \<open>Chunk size and overlap\<close>

declare token_windows.simps [simp del]

lemma token_windows_Nil: "token_windows n k [] = []"
  by (simp add: token_windows.simps)

lemma token_windows_short:
  "ids \<noteq> [] \<Longrightarrow> length ids \<le> n \<Longrightarrow> token_windows n k ids = [ids]"
  by (simp add: token_windows.simps [of n k ids])

lemma token_windows_step:
  "n < length ids \<Longrightarrow> 0 < k \<Longrightarrow>
     token_windows n k ids = take n ids # token_windows n k (drop k ids)"
  by (auto simp: token_windows.simps [of n k ids])

lemma token_windows_first:
  assumes "ids \<noteq> []" and "0 < k"
  shows "token_windows n k ids \<noteq> [] \<and> token_windows n k ids ! 0 = take n ids"
proof (cases "length ids \<le> n")
  case True
  with assms show ?thesis by (simp add: token_windows_short)
next
  case False
  with assms show ?thesis by (simp add: token_windows_step)
qed

lemma token_windows_more:
  assumes "Suc i < length (token_windows n k ids)" and "0 < k"
  shows "n < length ids"
proof (rule ccontr)
  assume "\<not> n < length ids"
  then have "length (token_windows n k ids) \<le> 1"
    by (cases "ids = []") (simp_all add: token_windows_Nil token_windows_short)
  with assms show False by simp
qed

lemma token_windows_overlap:
  assumes "0 < k" and "k \<le> n"
  shows "Suc i < length (token_windows n k ids) \<Longrightarrow>
     length (token_windows n k ids ! i) = n \<and>
     n - k < length (token_windows n k ids ! Suc i) \<and>
     take (n - k) (token_windows n k ids ! Suc i) = drop k (token_windows n k ids ! i)"
proof (induction i arbitrary: ids)
  case 0
  then have long: "n < length ids" using assms(1) by (rule token_windows_more)
  then have step: "token_windows n k ids = take n ids # token_windows n k (drop k ids)"
    using assms(1) by (rule token_windows_step)
  have "drop k ids \<noteq> []" using long assms(2) by simp
  then have next_chunk: "token_windows n k (drop k ids) ! 0 = take n (drop k ids)"
    using assms(1) token_windows_first by blast
  have "take (n - k) (take n (drop k ids)) = drop k (take n ids)"
    by (simp add: drop_take min_def)
  moreover have "n - k < length (take n (drop k ids))"
    using long assms by simp
  moreover have "length (take n ids) = n" using long by simp
  ultimately show ?case by (simp add: step next_chunk)
next
  case (Suc i)
  from Suc.prems have long: "n < length ids" using assms(1) by (rule token_windows_more)
  then have step: "token_windows n k ids = take n ids # token_windows n k (drop k ids)"
    using assms(1) by (rule token_windows_step)
  with Suc.prems have "Suc i < length (token_windows n k (drop k ids))" by simp
  from Suc.IH [OF this] show ?case by (simp add: step)
qed

lemma token_windows_bounds:
  "0 < n \<Longrightarrow> c \<in> set (token_windows n k ids) \<Longrightarrow> c \<noteq> [] \<and> length c \<le> n"
proof (induction n k ids rule: token_windows.induct)
  case (1 n k ids)
  show ?case
  proof (cases "ids = [] \<or> length ids \<le> n \<or> k = 0")
    case True
    with "1.prems" show ?thesis
      by (auto simp: token_windows.simps [of n k ids] split: if_splits)
  next
    case False
    then have "token_windows n k ids = take n ids # token_windows n k (drop k ids)"
      by (simp add: token_windows.simps [of n k ids])
    with "1.prems" False "1.IH" show ?thesis by auto
  qed
qed

text \<open>
  Claim C7. The fetch calls the splitter with chunk size 500 and overlap 50, and the
  overlap is smaller than the chunk size. In the chunk set of any token sequence,
  every chunk that has a successor has exactly 500 tokens, its last 50 tokens are the
  first 50 tokens of its successor, and the successor has more than 50 tokens; only
  the final chunk may have fewer than 500 tokens, and no chunk is empty or longer
  than 500 tokens.
\<close>

theorem chunk_set_overlap:
  "chunk_size = 500 \<and> chunk_overlap = 50 \<and> chunk_overlap < chunk_size
   \<and> (get_job_description_from_url env url s = (s', Inr ()) \<longrightarrow>
        (\<exists>document all_splits. split_documents env 500 50 document = Inr all_splits))
   \<and> (\<forall>i. Suc i < length (chunk_set tokens) \<longrightarrow>
        length (chunk_set tokens ! i) = chunk_size \<and>
        chunk_overlap < length (chunk_set tokens ! Suc i) \<and>
        take chunk_overlap (chunk_set tokens ! Suc i) =
          drop (chunk_size - chunk_overlap) (chunk_set tokens ! i) \<and>
        length (drop (chunk_size - chunk_overlap) (chunk_set tokens ! i)) = chunk_overlap)
   \<and> (\<forall>c \<in> set (chunk_set tokens). c \<noteq> [] \<and> length c \<le> chunk_size)
   \<and> (tokens \<noteq> [] \<longrightarrow> chunk_set tokens \<noteq> [])"
proof (intro conjI allI impI ballI)
  show "chunk_size = 500" by (simp add: chunk_size_def)
  show "chunk_overlap = 50" by (simp add: chunk_overlap_def)
  show "chunk_overlap < chunk_size" by (simp add: chunk_size_def chunk_overlap_def)
next
  assume "get_job_description_from_url env url s = (s', Inr ())"
  then obtain document all_splits
    where "split_documents env chunk_size chunk_overlap document = Inr all_splits"
    by (rule fetch_success_run)
  then show "\<exists>document all_splits. split_documents env 500 50 document = Inr all_splits"
    unfolding chunk_size_def chunk_overlap_def by blast
next
  fix i
  assume i: "Suc i < length (chunk_set tokens)"
  have k: "0 < chunk_size - chunk_overlap" "chunk_size - chunk_overlap \<le> chunk_size"
    "chunk_size - (chunk_size - chunk_overlap) = chunk_overlap"
    by (simp_all add: chunk_size_def chunk_overlap_def)
  from i have ov:
    "length (chunk_set tokens ! i) = chunk_size \<and>
     chunk_overlap < length (chunk_set tokens ! Suc i) \<and>
     take chunk_overlap (chunk_set tokens ! Suc i) =
       drop (chunk_size - chunk_overlap) (chunk_set tokens ! i)"
    using token_windows_overlap [OF k(1) k(2), of i tokens] k(3)
    unfolding chunk_set_def by simp
  then show "length (chunk_set tokens ! i) = chunk_size"
    and "chunk_overlap < length (chunk_set tokens ! Suc i)"
    and "take chunk_overlap (chunk_set tokens ! Suc i) =
       drop (chunk_size - chunk_overlap) (chunk_set tokens ! i)"
    by simp_all
  from ov show
    "length (drop (chunk_size - chunk_overlap) (chunk_set tokens ! i)) = chunk_overlap"
    using k(3) by simp
next
  fix c
  assume "c \<in> set (chunk_set tokens)"
  then have "c \<noteq> [] \<and> length c \<le> chunk_size"
    unfolding chunk_set_def
    using token_windows_bounds [of chunk_size c] by (simp add: chunk_size_def)
  then show "c \<noteq> []" and "length c \<le> chunk_size" by simp_all
next
  assume "tokens \<noteq> []"
  then show "chunk_set tokens \<noteq> []"
    unfolding chunk_set_def
    using token_windows_first [of tokens "chunk_size - chunk_overlap" chunk_size]
    by (simp add: chunk_size_def chunk_overlap_def)
qed

lemma chunk_set_501: "chunk_set [0..<501::nat] = [[0..<500], [450..<501]]"
proof -
  have "token_windows 500 450 [0..<501::nat] =
      take 500 [0..<501] # token_windows 500 450 (drop 450 [0..<501])"
    by (rule token_windows_step) simp_all
  moreover have "token_windows 500 450 (drop 450 [0..<501::nat]) = [drop 450 [0..<501]]"
    by (rule token_windows_short) simp_all
  moreover have "take 500 [0..<501::nat] = [0..<500]" by simp
  moreover have "drop 450 [0..<501::nat] = [450..<501]" by simp
  ultimately show ?thesis by (simp add: chunk_set_def chunk_size_def chunk_overlap_def)
qed

theorem chunk_set_overlap_witness:
  "Suc 0 < length (chunk_set [0..<501::nat])
   \<and> length (chunk_set [0..<501::nat] ! 0) = 500
   \<and> take 50 (chunk_set [0..<501::nat] ! Suc 0) = drop 450 (chunk_set [0..<501::nat] ! 0)
   \<and> [450..<501::nat] \<in> set (chunk_set [0..<501::nat])
   \<and> length [450..<501::nat] \<le> 500
   \<and> [0..<501::nat] \<noteq> [] \<and> chunk_set [0..<501::nat] \<noteq> []
   \<and> get_job_description_from_url stub_env job_url fresh_session = (fetched_session, Inr ())
   \<and> (\<exists>document all_splits. split_documents stub_env 500 50 document = Inr all_splits)"
proof -
  have h: "Suc 0 < length (chunk_set [0..<501::nat])" by (simp add: chunk_set_501)
  have m: "[450..<501::nat] \<in> set (chunk_set [0..<501::nat])" by (simp add: chunk_set_501)
  have ne: "[0..<501::nat] \<noteq> []" by simp
  note t = chunk_set_overlap [of stub_env job_url fresh_session fetched_session
      "[0..<501::nat]"]
  from t h have "length (chunk_set [0..<501::nat] ! 0) = chunk_size
     \<and> take chunk_overlap (chunk_set [0..<501::nat] ! Suc 0) =
         drop (chunk_size - chunk_overlap) (chunk_set [0..<501::nat] ! 0)"
    by blast
  then have "length (chunk_set [0..<501::nat] ! 0) = 500
     \<and> take 50 (chunk_set [0..<501::nat] ! Suc 0) = drop 450 (chunk_set [0..<501::nat] ! 0)"
    by (simp add: chunk_size_def chunk_overlap_def)
  moreover from t m have "length [450..<501::nat] \<le> chunk_size" by blast
  then have "length [450..<501::nat] \<le> 500" by (simp add: chunk_size_def)
  moreover from t ne have "chunk_set [0..<501::nat] \<noteq> []" by blast
  moreover from t fetched
  have "\<exists>document all_splits. split_documents stub_env 500 50 document = Inr all_splits"
    by blast
  ultimately show ?thesis using h m ne fetched by blast
qed

end
